theory Spec2Isabelle
  imports Complex_Main "HOL-Library.Multiset"
begin

section \<open>JavaScript numbers, over exact arithmetic\<close>

text \<open>
  A JavaScript \<open>number\<close> is modelled as an exact real or one of the three special values
  that the program can produce without any rounding: \<open>NaN\<close> (from \<open>undefined\<close> in
  arithmetic and from \<open>0 / 0\<close>) and the two infinities (from division by zero).
  Rounding and the sign of zero are not modelled. A value that may be \<open>undefined\<close>
  is a \<open>jsnum option\<close>, with \<open>None\<close> for \<open>undefined\<close>.
\<close>

datatype jsnum = Num real | NaN | PosInf | NegInf

fun jneg :: "jsnum \<Rightarrow> jsnum" where
  "jneg (Num a) = Num (- a)"
| "jneg NaN = NaN"
| "jneg PosInf = NegInf"
| "jneg NegInf = PosInf"

fun jadd :: "jsnum \<Rightarrow> jsnum \<Rightarrow> jsnum" where
  "jadd (Num a) (Num b) = Num (a + b)"
| "jadd NaN _ = NaN"
| "jadd _ NaN = NaN"
| "jadd PosInf NegInf = NaN"
| "jadd NegInf PosInf = NaN"
| "jadd PosInf _ = PosInf"
| "jadd _ PosInf = PosInf"
| "jadd NegInf _ = NegInf"
| "jadd _ NegInf = NegInf"

definition jsub :: "jsnum \<Rightarrow> jsnum \<Rightarrow> jsnum" where
  "jsub a b = jadd a (jneg b)"

text \<open>The sign of an infinite product or quotient.\<close>

definition signed_inf :: "bool \<Rightarrow> jsnum" where
  "signed_inf positive = (if positive then PosInf else NegInf)"

fun jmul :: "jsnum \<Rightarrow> jsnum \<Rightarrow> jsnum" where
  "jmul (Num a) (Num b) = Num (a * b)"
| "jmul NaN _ = NaN"
| "jmul _ NaN = NaN"
| "jmul (Num a) PosInf = (if a = 0 then NaN else signed_inf (0 < a))"
| "jmul (Num a) NegInf = (if a = 0 then NaN else signed_inf (a < 0))"
| "jmul PosInf (Num b) = (if b = 0 then NaN else signed_inf (0 < b))"
| "jmul NegInf (Num b) = (if b = 0 then NaN else signed_inf (b < 0))"
| "jmul PosInf PosInf = PosInf"
| "jmul NegInf NegInf = PosInf"
| "jmul PosInf NegInf = NegInf"
| "jmul NegInf PosInf = NegInf"

fun jdiv :: "jsnum \<Rightarrow> jsnum \<Rightarrow> jsnum" where
  "jdiv (Num a) (Num b) =
     (if b \<noteq> 0 then Num (a / b) else if a = 0 then NaN else signed_inf (0 < a))"
| "jdiv NaN _ = NaN"
| "jdiv _ NaN = NaN"
| "jdiv (Num a) PosInf = Num 0"
| "jdiv (Num a) NegInf = Num 0"
| "jdiv PosInf (Num b) = signed_inf (0 \<le> b)"
| "jdiv NegInf (Num b) = signed_inf (b < 0)"
| "jdiv PosInf PosInf = NaN"
| "jdiv PosInf NegInf = NaN"
| "jdiv NegInf PosInf = NaN"
| "jdiv NegInf NegInf = NaN"

text \<open>\<open>Math.sqrt\<close>: \<open>NaN\<close> below zero.\<close>

fun jsqrt :: "jsnum \<Rightarrow> jsnum" where
  "jsqrt (Num a) = (if a < 0 then NaN else Num (sqrt a))"
| "jsqrt NaN = NaN"
| "jsqrt PosInf = PosInf"
| "jsqrt NegInf = NaN"

text \<open>\<open>Math.min\<close> and \<open>Math.max\<close>: \<open>NaN\<close> as soon as one argument is.\<close>

fun jmin :: "jsnum \<Rightarrow> jsnum \<Rightarrow> jsnum" where
  "jmin (Num a) (Num b) = Num (min a b)"
| "jmin NaN _ = NaN"
| "jmin _ NaN = NaN"
| "jmin NegInf _ = NegInf"
| "jmin _ NegInf = NegInf"
| "jmin PosInf b = b"
| "jmin a PosInf = a"

fun jmax :: "jsnum \<Rightarrow> jsnum \<Rightarrow> jsnum" where
  "jmax (Num a) (Num b) = Num (max a b)"
| "jmax NaN _ = NaN"
| "jmax _ NaN = NaN"
| "jmax PosInf _ = PosInf"
| "jmax _ PosInf = PosInf"
| "jmax NegInf b = b"
| "jmax a NegInf = a"

text \<open>A value that is \<open>undefined\<close> becomes \<open>NaN\<close> when arithmetic reads it.\<close>

fun to_number :: "jsnum option \<Rightarrow> jsnum" where
  "to_number None = NaN"
| "to_number (Some a) = a"

text \<open>What the range \<open>[0,1]\<close> of a progress metric means for a JavaScript number.\<close>

fun in_unit_interval :: "jsnum \<Rightarrow> bool" where
  "in_unit_interval (Num a) = (0 \<le> a \<and> a \<le> 1)"
| "in_unit_interval _ = False"

section \<open>Arrays and strings\<close>

text \<open>
  \<open>a[i] = v\<close> on a JavaScript array: inside the array it overwrites, beyond its end the
  array grows and the slots in between are holes, which read as \<open>undefined\<close>.
\<close>

definition js_set :: "'a option list \<Rightarrow> nat \<Rightarrow> 'a option \<Rightarrow> 'a option list" where
  "js_set xs i v =
     (if i < length xs then xs[i := v] else xs @ replicate (i - length xs) None @ [v])"

text \<open>\<open>a[i]\<close>: \<open>undefined\<close> out of range.\<close>

definition js_get :: "'a option list \<Rightarrow> nat \<Rightarrow> 'a option" where
  "js_get xs i = (if i < length xs then xs ! i else None)"

text \<open>
  A string is the list of its code units. \<open>charCodeAt\<close> is \<open>NaN\<close> out of range (here
  \<open>None\<close>), \<open>charAt\<close> is the empty string.
\<close>

definition charCodeAt :: "string \<Rightarrow> nat \<Rightarrow> nat option" where
  "charCodeAt s i = (if i < length s then Some (of_char (s ! i)) else None)"

definition charAt :: "string \<Rightarrow> nat \<Rightarrow> string" where
  "charAt s i = (if i < length s then [s ! i] else [])"

text \<open>The decimal digits of a natural number, as \<open>`${value}`\<close> prints them.\<close>

fun show_nat :: "nat \<Rightarrow> string" where
  "show_nat n =
     (if n < 10 then [char_of (48 + n)] else show_nat (n div 10) @ [char_of (48 + n mod 10)])"

definition padTime :: "nat \<Rightarrow> string" where
  "padTime v = (let s = CHR ''0'' # show_nat v in drop (length s - 2) s)"

section \<open>The chart buffer\<close>

definition ChartSamples :: nat where
  "ChartSamples = 10"

record IChartData =
  cd_minimum :: "jsnum option list"
  cd_maximum :: "jsnum option list"
  cd_mean :: "jsnum option list"
  cd_stdDev :: "jsnum option list"
  cd_label :: "string option list"
  cd_index :: nat

definition createChartData :: "nat \<Rightarrow> IChartData" where
  "createChartData len =
     (let empty = replicate len (Some (Num 0)); emptyLabel = replicate len (Some [])
      in \<lparr>cd_minimum = empty, cd_maximum = empty, cd_mean = empty, cd_stdDev = empty,
          cd_label = emptyLabel, cd_index = 0\<rparr>)"

text \<open>
  \<open>rearrange\<close>: \<open>splice(0, index + 1)\<close> takes the first \<open>index + 1\<close> elements out of the
  copy (none for a negative count, all of them for a count beyond the length), and they
  are appended to what is left.
\<close>

definition rearrange :: "'a list \<Rightarrow> int \<Rightarrow> 'a list" where
  "rearrange array index =
     (let arrayClone = array;
          spliced = take (nat (index + 1)) arrayClone;
          arrayClone = drop (nat (index + 1)) arrayClone
      in arrayClone @ spliced)"

definition combine ::
  "jsnum option list \<Rightarrow> jsnum option list \<Rightarrow> (jsnum \<Rightarrow> jsnum \<Rightarrow> jsnum) \<Rightarrow> jsnum option list"
where
  "combine first second f =
     map (\<lambda>i. Some (f (to_number (js_get first i)) (to_number (js_get second i))))
       [0 ..< length first]"

text \<open>The data the chart configuration carries; its constant titles and layout are left out.\<close>

record chart_configuration =
  cc_categoryNames :: "string option list"
  cc_mean :: "jsnum option list"
  cc_plusstddev :: "jsnum option list"
  cc_negstddev :: "jsnum option list"
  cc_minimum :: "jsnum option list"
  cc_maximum :: "jsnum option list"

definition getChartConfiguration :: "IChartData \<Rightarrow> chart_configuration" where
  "getChartConfiguration data =
     (let mean = rearrange (cd_mean data) (int (cd_index data));
          stddev = rearrange (cd_stdDev data) (int (cd_index data));
          plusStddev = combine mean stddev jadd;
          negStddev = combine mean stddev jsub
      in \<lparr>cc_categoryNames = rearrange (cd_label data) (int (cd_index data)),
          cc_mean = mean, cc_plusstddev = plusStddev, cc_negstddev = negStddev,
          cc_minimum = rearrange (cd_minimum data) (int (cd_index data)),
          cc_maximum = rearrange (cd_maximum data) (int (cd_index data))\<rparr>)"

section \<open>The rate counter\<close>

text \<open>
  Modelled from the spec: \<open>utils.RateCounter\<close> is imported from the client API and is not
  among the sources. By the specification it holds the accumulated value, the sample
  count, the minimum and maximum seen and the start of its window.
\<close>

record RateCounter =
  rc_value :: jsnum
  rc_samples :: nat
  rc_minimum :: jsnum
  rc_maximum :: jsnum
  rc_start :: int

text \<open>
  Modelled from the spec: \<open>RateCounter.reset\<close>, not among the sources, which zeroes all
  fields and restarts the window.
\<close>

definition rc_reset :: "int \<Rightarrow> RateCounter" where
  "rc_reset now =
     \<lparr>rc_value = Num 0, rc_samples = 0, rc_minimum = Num 0, rc_maximum = Num 0,
      rc_start = now\<rparr>"

text \<open>
  Modelled from the spec: \<open>RateCounter.increment\<close>, not among the sources, which adds to
  the accumulator and updates minimum, maximum and sample count.
\<close>

definition rc_increment :: "jsnum \<Rightarrow> RateCounter \<Rightarrow> RateCounter" where
  "rc_increment amount c =
     c\<lparr>rc_value := jadd (rc_value c) amount,
       rc_samples := rc_samples c + 1,
       rc_minimum := jmin (rc_minimum c) amount,
       rc_maximum := jmax (rc_maximum c) amount\<rparr>"

text \<open>
  Modelled from the spec: \<open>RateCounter.elapsed\<close>, not among the sources, the time since the
  last reset.
\<close>

definition rc_elapsed :: "int \<Rightarrow> RateCounter \<Rightarrow> int" where
  "rc_elapsed now c = now - rc_start c"

text \<open>
  Modelled from the spec: \<open>RateCounter.getRate\<close>, not among the sources, the accumulated
  value over the elapsed time, and 0 when no time has elapsed.
\<close>

definition rc_getRate :: "int \<Rightarrow> RateCounter \<Rightarrow> jsnum" where
  "rc_getRate now c =
     (if rc_elapsed now c = 0 then Num 0
      else jdiv (rc_value c) (Num (of_int (rc_elapsed now c))))"

section \<open>The typing session\<close>

definition saveLineFrequency :: nat where
  "saveLineFrequency = 5"

definition RunningCalculationDelay :: int where
  "RunningCalculationDelay = 10000"

definition samplingRate :: int where
  "samplingRate = 1000"

record IScribeMetrics =
  latencyAverage :: "jsnum option"
  latencyStdDev :: "jsnum option"
  latencyMinimum :: "jsnum option"
  latencyMaximum :: "jsnum option"
  ackRate :: "jsnum option"
  typingRate :: "jsnum option"
  typingProgress :: "jsnum option"
  ackProgress :: "jsnum option"
  time :: int
  textLength :: nat
  pingAverage :: "jsnum option"
  pingMaximum :: "jsnum option"
  typingInterval :: int

text \<open>An acknowledgement as the \<open>op\<close> event delivers it.\<close>

record ITrace =
  tr_service :: string
  tr_timestamp :: int

record ISequencedObjectMessage =
  clientSequenceNumber :: nat
  clientId :: string
  traces :: "ITrace list"

text \<open>
  What a session is started with: the parameters of \<open>typeChunk\<close> that its handlers read,
  the client id of its document, and the clock value taken as \<open>startTime\<close>. \<open>chunk\<close> is
  the text after \<open>normalizeText\<close>, whose segment loader is not among the sources.
\<close>

record session_config =
  chunk :: string
  chunkKey :: string
  intervalTime :: int
  startTime :: int
  docClientId :: string

text \<open>The calls a session makes on the shared string and on its document.\<close>

datatype backend_call =
  InsertText string int
| InsertMarker int
| Save nat


text \<open>
  Objects handed to the callbacks are named by address: address 0 is the session's own
  \<open>metrics\<close> object, which the handlers keep mutating; address \<open>i + 1\<close> is the \<open>i\<close>-th object
  made by \<open>clone\<close>, which nothing mutates afterwards.
\<close>

datatype callee = Callback | QueueCallback

record session =
  readPosition :: nat
  lineNumber :: nat
  metrics :: IScribeMetrics
  ackCounter :: RateCounter
  latencyCounter :: RateCounter
  pingCounter :: RateCounter
  typingCounter :: RateCounter
  messageStart :: "int list"
  mean :: jsnum
  stdDev :: jsnum
  chartData :: IChartData
  histogram :: "jsnum list"
  performanceData :: "chart_configuration option"
  histogramData :: "jsnum list option"
  metricsInterval :: bool
  typing :: bool
  resolved :: "nat option"
  calls :: "backend_call list"
  clones :: "IScribeMetrics list"
  delivered :: "(callee \<times> nat) list"

text \<open>
  The state a session starts in; its counters are reset at the clock value taken as
  \<open>startTime\<close>. \<open>histogram\<close> keeps the samples given to
  \<open>utils.Histogram.add\<close>, which is not among the sources; \<open>performanceData\<close> and
  \<open>histogramData\<close> are the last values set on the two chart cells; \<open>metricsInterval\<close> and
  \<open>typing\<close> say whether the snapshot timer and the typing schedule are still running;
  \<open>resolved\<close> is the address the promise was resolved with.
\<close>

definition init_session :: "session_config \<Rightarrow> session" where
  "init_session cfg =
     \<lparr>readPosition = 0, lineNumber = 0,
      metrics = \<lparr>latencyAverage = None, latencyStdDev = None, latencyMinimum = None,
                 latencyMaximum = None, ackRate = None, typingRate = None,
                 typingProgress = None, ackProgress = None, time = 0,
                 textLength = length (chunk cfg), pingAverage = None, pingMaximum = None,
                 typingInterval = intervalTime cfg\<rparr>,
      ackCounter = rc_reset (startTime cfg),
      latencyCounter = rc_reset (startTime cfg),
      pingCounter = rc_reset (startTime cfg),
      typingCounter = rc_reset (startTime cfg),
      messageStart = [],
      mean = Num 0, stdDev = Num 0,
      chartData = createChartData ChartSamples,
      histogram = [],
      performanceData = None, histogramData = None,
      metricsInterval = True, typing = True, resolved = None,
      calls = [], clones = [], delivered = []\<rparr>"

text \<open>What an address handed to a callback points to.\<close>

definition deref :: "session \<Rightarrow> nat \<Rightarrow> IScribeMetrics option" where
  "deref s a =
     (if a = 0 then Some (metrics s)
      else if a - 1 < length (clones s) then Some (clones s ! (a - 1)) else None)"

subsection \<open>The snapshot timer\<close>

text \<open>
  One run of the \<open>metricsInterval\<close> handler; \<open>hours\<close>, \<open>minutes\<close> and \<open>seconds\<close> are
  those of the local time it reads.
\<close>

definition metricsTick :: "nat \<Rightarrow> nat \<Rightarrow> nat \<Rightarrow> session \<Rightarrow> session" where
  "metricsTick hours minutes seconds s =
     (if latencyStdDev (metrics s) \<noteq> None then
        let cd = chartData s;
            index = cd_index cd;
            cd = cd\<lparr>cd_label := js_set (cd_label cd) index
                        (Some (padTime hours @ '':'' @ padTime minutes @ '':'' @ padTime seconds))\<rparr>;
            cd = cd\<lparr>cd_maximum := js_set (cd_maximum cd) index (latencyMaximum (metrics s))\<rparr>;
            cd = cd\<lparr>cd_mean := js_set (cd_mean cd) index (latencyAverage (metrics s))\<rparr>;
            cd = cd\<lparr>cd_minimum := js_set (cd_minimum cd) index (latencyMinimum (metrics s))\<rparr>;
            cd = cd\<lparr>cd_stdDev := js_set (cd_stdDev cd) index (latencyStdDev (metrics s))\<rparr>;
            s = s\<lparr>performanceData := Some (getChartConfiguration cd)\<rparr>;
            s = s\<lparr>histogramData := Some (histogram s)\<rparr>;
            cd = cd\<lparr>cd_index := (cd_index cd + 1) mod length (cd_maximum cd)\<rparr>
        in s\<lparr>chartData := cd\<rparr>
      else s)"

subsection \<open>The acknowledgement handler\<close>

text \<open>\<open>messageStart.pop()\<close>: the last element, or \<open>undefined\<close> on an empty array.\<close>

definition pop :: "'a list \<Rightarrow> 'a option \<times> 'a list" where
  "pop xs = (if xs = [] then (None, []) else (Some (last xs), butlast xs))"

text \<open>\<open>Date.now() - messageStart.pop()\<close>.\<close>

definition resolveAck :: "int \<Rightarrow> session \<Rightarrow> jsnum \<times> session" where
  "resolveAck now s =
     (case pop (messageStart s) of
        (None, rest) \<Rightarrow> (NaN, s\<lparr>messageStart := rest\<rparr>)
      | (Some t, rest) \<Rightarrow> (Num (of_int (now - t)), s\<lparr>messageStart := rest\<rparr>))"

definition ackRateUpdate :: "int \<Rightarrow> session \<Rightarrow> session" where
  "ackRateUpdate now s =
     (let s = s\<lparr>ackCounter := rc_increment (Num 1) (ackCounter s)\<rparr>
      in if rc_elapsed now (ackCounter s) > samplingRate then
           let rate = jmul (rc_getRate now (ackCounter s)) (Num 1000);
               s = s\<lparr>metrics := (metrics s)\<lparr>ackRate := Some rate\<rparr>\<rparr>
           in s\<lparr>ackCounter := rc_reset now\<rparr>
         else s)"

definition recordRoundTrip :: "jsnum \<Rightarrow> session \<Rightarrow> session" where
  "recordRoundTrip roundTrip s =
     s\<lparr>latencyCounter := rc_increment roundTrip (latencyCounter s)\<rparr>"

definition pingUpdate :: "ISequencedObjectMessage \<Rightarrow> session \<Rightarrow> session" where
  "pingUpdate message s =
     (let s = (if length (traces message) = 8 \<and> tr_service (traces message ! 7) = ''ping''
               then s\<lparr>pingCounter := rc_increment
                        (Num (of_int (tr_timestamp (traces message ! 7)
                                      - tr_timestamp (traces message ! 0))))
                        (pingCounter s)\<rparr>
               else s)
      in s\<lparr>metrics := (metrics s)
            \<lparr>pingAverage := Some (jdiv (rc_value (pingCounter s))
                                        (Num (of_nat (rc_samples (pingCounter s))))),
             pingMaximum := Some (rc_maximum (pingCounter s))\<rparr>\<rparr>)"

text \<open>
  The running estimate: the statements from \<open>histogram.add\<close> to the store of the mean for
  the next round.
\<close>

definition updateLatency :: "jsnum \<Rightarrow> session \<Rightarrow> session" where
  "updateLatency roundTrip s =
     (let s = s\<lparr>histogram := histogram s @ [roundTrip]\<rparr>;
          samples = rc_samples (latencyCounter s);
          s = s\<lparr>metrics := (metrics s)
                 \<lparr>latencyMinimum := Some (rc_minimum (latencyCounter s)),
                  latencyMaximum := Some (rc_maximum (latencyCounter s)),
                  latencyAverage := Some (jdiv (rc_value (latencyCounter s))
                                               (Num (of_nat samples)))\<rparr>\<rparr>;
          s = s\<lparr>stdDev := jadd (stdDev s)
                   (jmul (jsub roundTrip (to_number (latencyAverage (metrics s))))
                         (jsub roundTrip (mean s)))\<rparr>;
          s = s\<lparr>metrics := (metrics s)
                 \<lparr>latencyStdDev :=
                    Some (if samples > 1
                          then jsqrt (jdiv (stdDev s) (Num (of_nat (samples - 1))))
                          else Num 0)\<rparr>\<rparr>
      in s\<lparr>mean := to_number (latencyAverage (metrics s))\<rparr>)"

definition runningCalculation ::
  "session_config \<Rightarrow> int \<Rightarrow> ISequencedObjectMessage \<Rightarrow> session \<Rightarrow> session" where
  "runningCalculation cfg now message s =
     (if now - startTime cfg > RunningCalculationDelay then
        let (roundTrip, s) = resolveAck now s;
            s = recordRoundTrip roundTrip s;
            s = pingUpdate message s
        in updateLatency roundTrip s
      else s)"

definition completionCheck ::
  "session_config \<Rightarrow> int \<Rightarrow> ISequencedObjectMessage \<Rightarrow> session \<Rightarrow> session" where
  "completionCheck cfg now message s =
     (if clientSequenceNumber message \<ge> length (chunk cfg) then
        let endTime = now;
            s = s\<lparr>metricsInterval := False\<rparr>;
            s = s\<lparr>metrics := (metrics s)\<lparr>time := endTime - startTime cfg\<rparr>\<rparr>
        in s\<lparr>resolved := (case resolved s of None \<Rightarrow> Some 0 | Some a \<Rightarrow> Some a)\<rparr>
      else s)"

text \<open>\<open>callback(clone(metrics))\<close>: a new object with the fields of \<open>metrics\<close>, handed over.\<close>

definition notify :: "session \<Rightarrow> session" where
  "notify s =
     (let s = s\<lparr>clones := clones s @ [metrics s]\<rparr>
      in s\<lparr>delivered := delivered s @ [(Callback, length (clones s))]\<rparr>)"

text \<open>
  One run of the \<open>op\<close> handler; \<open>now\<close> is the value of the clock, which is taken
  not to advance while a handler runs.
\<close>

definition onOp ::
  "session_config \<Rightarrow> int \<Rightarrow> ISequencedObjectMessage \<Rightarrow> session \<Rightarrow> session" where
  "onOp cfg now message s =
     (if clientSequenceNumber message \<noteq> 0 \<and> clientId message = docClientId cfg then
        let s = ackRateUpdate now s;
            s = runningCalculation cfg now message s;
            s = completionCheck cfg now message s;
            s = s\<lparr>metrics := (metrics s)
                   \<lparr>ackProgress := Some (jdiv (Num (of_nat (clientSequenceNumber message)))
                                              (Num (of_nat (length (chunk cfg)))))\<rparr>\<rparr>
        in notify s
      else s)"

subsection \<open>The typing step\<close>

definition trackOperation :: "int \<Rightarrow> (session \<Rightarrow> session) \<Rightarrow> session \<Rightarrow> session" where
  "trackOperation now fn s =
     (let s = s\<lparr>typingCounter := rc_increment (Num 1) (typingCounter s)\<rparr>;
          s = (if rc_elapsed now (typingCounter s) > samplingRate then
                 let rate = jmul (rc_getRate now (typingCounter s)) (Num 1000);
                     s = s\<lparr>metrics := (metrics s)\<lparr>typingRate := Some rate\<rparr>\<rparr>
                 in s\<lparr>typingCounter := rc_reset now\<rparr>
               else s);
          s = fn s
      in s\<lparr>messageStart := messageStart s @ [now]\<rparr>)"

text \<open>
  The operation \<open>type\<close> wraps in \<open>trackOperation\<close>; \<open>code\<close> is the character code read
  before it, \<open>pos\<close> the position the merge tree resolved for the chunk's marker.
\<close>

definition insertNext :: "session_config \<Rightarrow> int \<Rightarrow> nat option \<Rightarrow> session \<Rightarrow> session" where
  "insertNext cfg pos code s =
     (let char = charAt (chunk cfg) (readPosition s)
      in if code = Some 10 then
           let s = s\<lparr>calls := calls s @ [InsertMarker pos]\<rparr>;
               s = s\<lparr>readPosition := readPosition s + 1\<rparr>;
               s = s\<lparr>lineNumber := lineNumber s + 1\<rparr>
           in if lineNumber s mod saveLineFrequency = 0
              then s\<lparr>calls := calls s @ [Save (lineNumber s)]\<rparr>
              else s
         else
           let s = s\<lparr>calls := calls s @ [InsertText char pos]\<rparr>
           in s\<lparr>readPosition := readPosition s + 1\<rparr>)"

text \<open>
  One call of \<open>type\<close>, with the global \<open>play\<close> flag and the clock as it finds them: the
  returned flag says whether the caller keeps the session scheduled.
\<close>

definition type :: "session_config \<Rightarrow> bool \<Rightarrow> int \<Rightarrow> int \<Rightarrow> session \<Rightarrow> bool \<times> session" where
  "type cfg play now pos s =
     (if readPosition s = length (chunk cfg) then
        (False, s\<lparr>delivered := delivered s @ [(QueueCallback, 0)]\<rparr>)
      else if \<not> play then (True, s)
      else
        let code = charCodeAt (chunk cfg) (readPosition s);
            s = (if code = Some 13 then s\<lparr>readPosition := readPosition s + 1\<rparr> else s);
            code = (if code = Some 13 then charCodeAt (chunk cfg) (readPosition s) else code);
            s = trackOperation now (insertNext cfg pos code) s;
            s = s\<lparr>metrics := (metrics s)
                   \<lparr>typingProgress := Some (jdiv (Num (of_nat (readPosition s)))
                                                 (Num (of_nat (length (chunk cfg)))))\<rparr>\<rparr>
        in (True, s))"

text \<open>
  A turn of the typing schedule (\<open>typeFast\<close> or the interval timer): it calls \<open>type\<close>
  while the session is scheduled and stops the schedule when \<open>type\<close> returns false.
\<close>

definition typeTick :: "session_config \<Rightarrow> bool \<Rightarrow> int \<Rightarrow> int \<Rightarrow> session \<Rightarrow> session" where
  "typeTick cfg play now pos s =
     (if typing s then
        let (again, s) = type cfg play now pos s in s\<lparr>typing := again\<rparr>
      else s)"

section \<open>Runs of a session and of the process\<close>

text \<open>
  The handlers of one session run one at a time, in the order the scheduler delivers
  their events: a turn of the typing schedule (with the \<open>play\<close> flag it finds), an
  acknowledgement, a turn of the snapshot timer (which no longer fires once cleared).
\<close>

datatype session_event =
  Tick bool int int
| Ack int ISequencedObjectMessage
| Snapshot nat nat nat

fun session_step :: "session_config \<Rightarrow> session \<Rightarrow> session_event \<Rightarrow> session" where
  "session_step cfg s (Tick p now pos) = typeTick cfg p now pos s"
| "session_step cfg s (Ack now message) = onOp cfg now message s"
| "session_step cfg s (Snapshot hours minutes seconds) =
     (if metricsInterval s then metricsTick hours minutes seconds s else s)"

definition session_run :: "session_config \<Rightarrow> session_event list \<Rightarrow> session \<Rightarrow> session" where
  "session_run cfg evs s = foldl (session_step cfg) s evs"

text \<open>
  The process: the module-level \<open>play\<close> flag, \<open>false\<close> when the module is loaded, and the
  sessions started in it, each with its configuration.
\<close>

record world =
  w_play :: bool
  w_sessions :: "(session_config \<times> session) list"

definition init_world :: "session_config list \<Rightarrow> world" where
  "init_world cfgs = \<lparr>w_play = False, w_sessions = map (\<lambda>cfg. (cfg, init_session cfg)) cfgs\<rparr>"

definition togglePlay :: "world \<Rightarrow> world" where
  "togglePlay w = w\<lparr>w_play := \<not> w_play w\<rparr>"

datatype event =
  TogglePlay
| TypeTurn nat int int
| OpEvent nat int ISequencedObjectMessage
| SnapshotTurn nat nat nat nat

definition on_session :: "nat \<Rightarrow> session_event \<Rightarrow> world \<Rightarrow> world" where
  "on_session i ev w =
     (if i < length (w_sessions w) then
        let (cfg, s) = w_sessions w ! i
        in w\<lparr>w_sessions := (w_sessions w)[i := (cfg, session_step cfg s ev)]\<rparr>
      else w)"

fun step :: "world \<Rightarrow> event \<Rightarrow> world" where
  "step w TogglePlay = togglePlay w"
| "step w (TypeTurn i now pos) = on_session i (Tick (w_play w) now pos) w"
| "step w (OpEvent i now message) = on_session i (Ack now message) w"
| "step w (SnapshotTurn i hours minutes seconds) = on_session i (Snapshot hours minutes seconds) w"

definition run :: "event list \<Rightarrow> world \<Rightarrow> world" where
  "run evs w = foldl step w evs"

text \<open>The acknowledgements of a run that the handler attributes to its session.\<close>

definition attributed :: "session_config \<Rightarrow> ISequencedObjectMessage \<Rightarrow> bool" where
  "attributed cfg message \<longleftrightarrow>
     clientSequenceNumber message \<noteq> 0 \<and> clientId message = docClientId cfg"

fun attributed_acks :: "session_config \<Rightarrow> session_event list \<Rightarrow> ISequencedObjectMessage list" where
  "attributed_acks cfg [] = []"
| "attributed_acks cfg (Ack now message # evs) =
     (if attributed cfg message then message # attributed_acks cfg evs
      else attributed_acks cfg evs)"
| "attributed_acks cfg (_ # evs) = attributed_acks cfg evs"

text \<open>The terminal state: snapshot timer cleared and promise resolved.\<close>

definition completed :: "session \<Rightarrow> bool" where
  "completed s \<longleftrightarrow> \<not> metricsInterval s \<and> resolved s \<noteq> None"


definition after_delay :: "session_config \<Rightarrow> int \<Rightarrow> bool" where
  "after_delay cfg now \<longleftrightarrow> now - startTime cfg > RunningCalculationDelay"


text \<open>The snapshot buffer holds \<open>n\<close> slots in each of its arrays, and its index is one of them.\<close>

definition chart_slots :: "nat \<Rightarrow> IChartData \<Rightarrow> bool" where
  "chart_slots n cd \<longleftrightarrow>
     length (cd_minimum cd) = n \<and> length (cd_maximum cd) = n \<and> length (cd_mean cd) = n
     \<and> length (cd_stdDev cd) = n \<and> length (cd_label cd) = n \<and> cd_index cd < n"

section \<open>The running estimate against the batch computation\<close>

text \<open>One sample through the estimator: the counter's increment and the running update.\<close>

definition feed :: "session \<Rightarrow> real \<Rightarrow> session" where
  "feed s x = updateLatency (Num x) (recordRoundTrip (Num x) s)"

text \<open>
  The batch computation, as the specification words it: the mean of the samples, and
  the sample standard deviation in its \<open>n - 1\<close> form.
\<close>

definition batch_mean :: "real list \<Rightarrow> real" where
  "batch_mean xs = sum_list xs / real (length xs)"

definition batch_stdDev :: "real list \<Rightarrow> real" where
  "batch_stdDev xs =
     sqrt (sum_list (map (\<lambda>x. (x - batch_mean xs)\<^sup>2) xs) / real (length xs - 1))"

text \<open>What the running estimate keeps and reports.\<close>

definition estimate :: "session \<Rightarrow> RateCounter \<times> jsnum \<times> jsnum \<times> jsnum option \<times> jsnum option" where
  "estimate s =
     (latencyCounter s, mean s, stdDev s, latencyAverage (metrics s), latencyStdDev (metrics s))"

section \<open>Dispatch\<close>





text \<open>A session that has emitted nothing, and a process paused with only such sessions.\<close>

definition idle :: "session \<Rightarrow> bool" where
  "idle s \<longleftrightarrow> calls s = [] \<and> messageStart s = [] \<and> readPosition s = 0"

definition all_idle :: "session_config list \<Rightarrow> world \<Rightarrow> bool" where
  "all_idle cfgs w \<longleftrightarrow>
     \<not> w_play w \<and> map fst (w_sessions w) = cfgs \<and> (\<forall>cs \<in> set (w_sessions w). idle (snd cs))"

section \<open>A concrete session\<close>

text \<open>A single writer on the chunk \<open>p-0\<close>, started at clock value 0, and its acknowledgements.\<close>

definition example_config :: "string \<Rightarrow> session_config" where
  "example_config text =
     \<lparr>chunk = text, chunkKey = ''p-0'', intervalTime = 0, startTime = 0,
      docClientId = ''writer''\<rparr>"

definition example_ack :: "nat \<Rightarrow> ISequencedObjectMessage" where
  "example_ack n = \<lparr>clientSequenceNumber = n, clientId = ''writer'', traces = []\<rparr>"

section \<open>The chart buffer is a ring\<close>

lemma length_rearrange: "length (rearrange a i) = length a"
  by (simp add: rearrange_def Let_def)

lemma rearrange_rotate: "i < length a \<Longrightarrow> rearrange a (int i) = rotate (Suc i) a"
proof -
  assume "i < length a"
  then have "Suc i \<le> length a" by simp
  then have "rotate (Suc i) a = drop (Suc i) a @ take (Suc i) a"
    by (metis rotate_drop_take mod_less mod_self drop_all take_all append_Nil append_Nil2
        drop0 take0 order_refl le_eq_less_or_eq)
  then show ?thesis by (simp add: rearrange_def Let_def nat_add_distrib)
qed

lemma mset_rearrange: "mset (rearrange a i) = mset a"
proof -
  have "mset (drop n a @ take n a) = mset (take n a @ drop n a)" for n
    by (simp only: mset_append add.commute)
  then show ?thesis by (simp add: rearrange_def Let_def del: mset_append)
qed

lemma nth_rearrange:
  assumes "i < length a" "j < length a"
  shows "rearrange a (int i) ! j = a ! ((i + 1 + j) mod length a)"
proof -
  have "rotate (Suc i) a ! j = a ! ((Suc i + j) mod length a)"
    using assms(2) by (rule nth_rotate)
  then show ?thesis using assms(1) by (simp only: rearrange_rotate) simp
qed

lemma js_set_length: "i < length xs \<Longrightarrow> length (js_set xs i v) = length xs"
  by (simp add: js_set_def)

lemma chart_slots_create: "0 < n \<Longrightarrow> chart_slots n (createChartData n)"
  by (simp add: chart_slots_def createChartData_def Let_def)

lemma chart_slots_metricsTick:
  "chart_slots n (chartData s) \<Longrightarrow> chart_slots n (chartData (metricsTick h m sec s))"
  by (auto simp: chart_slots_def metricsTick_def Let_def js_set_length)

lemma snd_resolveAck:
  "snd (resolveAck now s) = s\<lparr>messageStart := snd (pop (messageStart s))\<rparr>"
  by (simp add: resolveAck_def split: prod.splits option.splits)

lemma chartData_runningCalculation: "chartData (runningCalculation cfg now m s) = chartData s"
  by (simp add: runningCalculation_def snd_resolveAck recordRoundTrip_def pingUpdate_def
      updateLatency_def Let_def case_prod_beta)

lemma chartData_onOp: "chartData (onOp cfg now m s) = chartData s"
  by (simp add: onOp_def ackRateUpdate_def chartData_runningCalculation completionCheck_def
      notify_def Let_def)

lemma chartData_typeTick: "chartData (typeTick cfg p now pos s) = chartData s"
  by (simp add: typeTick_def type_def trackOperation_def insertNext_def Let_def
      case_prod_beta)

lemma chart_slots_step:
  "chart_slots n (chartData s) \<Longrightarrow> chart_slots n (chartData (session_step cfg s ev))"
  by (cases ev) (simp_all add: chartData_onOp chartData_typeTick chart_slots_metricsTick)

lemma chart_slots_run:
  "chart_slots n (chartData s) \<Longrightarrow> chart_slots n (chartData (session_run cfg evs s))"
  unfolding session_run_def
  by (induction evs arbitrary: s) (simp_all add: chart_slots_step)

lemma rearrange_view:
  assumes "chart_slots n d"
  shows "cc_mean (getChartConfiguration d) = rotate (Suc (cd_index d)) (cd_mean d)"
    and "cc_minimum (getChartConfiguration d) = rotate (Suc (cd_index d)) (cd_minimum d)"
    and "cc_maximum (getChartConfiguration d) = rotate (Suc (cd_index d)) (cd_maximum d)"
    and "cc_categoryNames (getChartConfiguration d) = rotate (Suc (cd_index d)) (cd_label d)"
  using assms by (simp_all add: getChartConfiguration_def Let_def chart_slots_def rearrange_rotate)

text \<open>
  Claim C8. Through every run of a session the chart buffer keeps its \<open>ChartSamples\<close>
  slots in each array, with the write index among them. The view \<open>rearrange a i\<close> has the
  length and the elements of \<open>a\<close>, and for an index \<open>k\<close> inside the array it is the
  rotation of \<open>a\<close> that begins at position \<open>k + 1\<close>: its \<open>j\<close>-th entry is the entry of \<open>a\<close>
  at \<open>(k + 1 + j) mod length a\<close>. The series the chart configuration shows are these
  rotations of the stored arrays at the buffer's index.
\<close>

theorem chart_buffer_ring:
  "chart_slots ChartSamples (chartData (session_run cfg evs (init_session cfg)))
   \<and> length (rearrange a i) = length a \<and> mset (rearrange a i) = mset a
   \<and> (k < length a \<longrightarrow>
        rearrange a (int k) = rotate (Suc k) a
        \<and> (\<forall>j < length a. rearrange a (int k) ! j = a ! ((k + 1 + j) mod length a)))
   \<and> (chart_slots n d \<longrightarrow>
        cc_mean (getChartConfiguration d) = rotate (Suc (cd_index d)) (cd_mean d)
        \<and> cc_minimum (getChartConfiguration d) = rotate (Suc (cd_index d)) (cd_minimum d)
        \<and> cc_maximum (getChartConfiguration d) = rotate (Suc (cd_index d)) (cd_maximum d)
        \<and> cc_categoryNames (getChartConfiguration d) = rotate (Suc (cd_index d)) (cd_label d))"
proof -
  have "chart_slots ChartSamples (chartData (init_session cfg))"
    by (simp add: init_session_def chart_slots_create ChartSamples_def)
  then have slots: "chart_slots ChartSamples (chartData (session_run cfg evs (init_session cfg)))"
    by (rule chart_slots_run)
  have rot: "k < length a \<longrightarrow>
        rearrange a (int k) = rotate (Suc k) a
        \<and> (\<forall>j < length a. rearrange a (int k) ! j = a ! ((k + 1 + j) mod length a))"
    using rearrange_rotate [of k a] nth_rearrange [of k a] by blast
  have view: "chart_slots n d \<longrightarrow>
        cc_mean (getChartConfiguration d) = rotate (Suc (cd_index d)) (cd_mean d)
        \<and> cc_minimum (getChartConfiguration d) = rotate (Suc (cd_index d)) (cd_minimum d)
        \<and> cc_maximum (getChartConfiguration d) = rotate (Suc (cd_index d)) (cd_maximum d)
        \<and> cc_categoryNames (getChartConfiguration d) = rotate (Suc (cd_index d)) (cd_label d)"
    using rearrange_view [of n d] by blast
  show ?thesis
    using slots rot view length_rearrange [of a i] mset_rearrange [of a i] by blast
qed

theorem chart_buffer_ring_witness:
  "(1::nat) < length [10, 20, 30, 40, 50 :: nat]
   \<and> rearrange [10, 20, 30, 40, 50 :: nat] 1 = [30, 40, 50, 10, 20]
   \<and> (0::nat) < length [10, 20, 30, 40, 50 :: nat]
   \<and> rearrange [10, 20, 30, 40, 50 :: nat] 1 ! 0 = 30
   \<and> chart_slots 3 \<lparr>cd_minimum = [Some (Num 1), Some (Num 2), Some (Num 3)],
         cd_maximum = [Some (Num 4), Some (Num 5), Some (Num 6)],
         cd_mean = [Some (Num 7), Some (Num 8), Some (Num 9)],
         cd_stdDev = [Some (Num 0), Some (Num 0), Some (Num 0)],
         cd_label = [Some ''a'', Some ''b'', Some ''c''], cd_index = 0\<rparr>
   \<and> cc_mean (getChartConfiguration \<lparr>cd_minimum = [Some (Num 1), Some (Num 2), Some (Num 3)],
         cd_maximum = [Some (Num 4), Some (Num 5), Some (Num 6)],
         cd_mean = [Some (Num 7), Some (Num 8), Some (Num 9)],
         cd_stdDev = [Some (Num 0), Some (Num 0), Some (Num 0)],
         cd_label = [Some ''a'', Some ''b'', Some ''c''], cd_index = 0\<rparr>)
       = [Some (Num 8), Some (Num 9), Some (Num 7)]"
  using chart_buffer_ring [where a = "[10, 20, 30, 40, 50 :: nat]" and k = 1 and n = 3
      and d = "\<lparr>cd_minimum = [Some (Num 1), Some (Num 2), Some (Num 3)],
         cd_maximum = [Some (Num 4), Some (Num 5), Some (Num 6)],
         cd_mean = [Some (Num 7), Some (Num 8), Some (Num 9)],
         cd_stdDev = [Some (Num 0), Some (Num 0), Some (Num 0)],
         cd_label = [Some ''a'', Some ''b'', Some ''c''], cd_index = 0\<rparr>"]
  by (simp add: chart_slots_def)

section \<open>What the handlers leave alone\<close>

lemma onOp_foreign: "\<not> attributed cfg m \<Longrightarrow> onOp cfg now m s = s"
  by (auto simp: onOp_def attributed_def)

lemma messageStart_runningCalculation:
  "messageStart (runningCalculation cfg now m s)
     = (if after_delay cfg now then butlast (messageStart s) else messageStart s)"
  by (simp add: runningCalculation_def snd_resolveAck recordRoundTrip_def pingUpdate_def
      updateLatency_def Let_def case_prod_beta after_delay_def pop_def)

lemma messageStart_onOp:
  "messageStart (onOp cfg now m s)
     = (if attributed cfg m \<and> after_delay cfg now then butlast (messageStart s)
        else messageStart s)"
  by (simp add: onOp_def attributed_def messageStart_runningCalculation completionCheck_def
      notify_def Let_def ackRateUpdate_def)

lemma calls_runningCalculation: "calls (runningCalculation cfg now m s) = calls s"
  by (simp add: runningCalculation_def snd_resolveAck recordRoundTrip_def pingUpdate_def
      updateLatency_def Let_def case_prod_beta)

lemma calls_onOp: "calls (onOp cfg now m s) = calls s"
  by (simp add: onOp_def calls_runningCalculation completionCheck_def
      notify_def Let_def ackRateUpdate_def)

lemma calls_metricsTick: "calls (metricsTick h mi sec s) = calls s"
  by (simp add: metricsTick_def Let_def)

lemma messageStart_metricsTick: "messageStart (metricsTick h mi sec s) = messageStart s"
  by (simp add: metricsTick_def Let_def)

lemma readPosition_runningCalculation:
  "readPosition (runningCalculation cfg now m s) = readPosition s"
  by (simp add: runningCalculation_def snd_resolveAck recordRoundTrip_def pingUpdate_def
      updateLatency_def Let_def case_prod_beta)

lemma readPosition_onOp: "readPosition (onOp cfg now m s) = readPosition s"
  by (simp add: onOp_def readPosition_runningCalculation completionCheck_def
      notify_def Let_def ackRateUpdate_def)

lemma readPosition_metricsTick: "readPosition (metricsTick h mi sec s) = readPosition s"
  by (simp add: metricsTick_def Let_def)

lemma typeTick_paused_fields:
  "calls (typeTick cfg False now pos s) = calls s"
  "messageStart (typeTick cfg False now pos s) = messageStart s"
  "readPosition (typeTick cfg False now pos s) = readPosition s"
  by (simp_all add: typeTick_def type_def)


section \<open>Pause\<close>






section \<open>Dispatch with several writers\<close>



section \<open>Nothing is typed before the first toggle\<close>

lemma idle_session_step:
  assumes "idle s" "\<forall>now pos. ev \<noteq> Tick True now pos"
  shows "idle (session_step cfg s ev)"
proof (cases ev)
  case (Tick p now pos)
  with assms(2) have "\<not> p" by (cases p) auto
  then show ?thesis using assms(1) Tick by (simp add: idle_def typeTick_paused_fields)
next
  case (Ack now m)
  then show ?thesis using assms(1)
    by (simp add: idle_def calls_onOp messageStart_onOp readPosition_onOp)
next
  case (Snapshot h mi sec)
  then show ?thesis using assms(1)
    by (simp add: idle_def calls_metricsTick messageStart_metricsTick readPosition_metricsTick)
qed

lemma all_idle_on_session:
  assumes "all_idle cfgs w" "\<forall>now pos. ev \<noteq> Tick True now pos"
  shows "all_idle cfgs (on_session i ev w)"
proof (cases "i < length (w_sessions w)")
  case False
  then show ?thesis using assms(1) by (simp add: on_session_def)
next
  case True
  obtain cfg s where cs: "w_sessions w ! i = (cfg, s)" by (cases "w_sessions w ! i")
  from True cs have mem: "(cfg, s) \<in> set (w_sessions w)" by (metis nth_mem)
  with assms(1) have "idle s" by (auto simp: all_idle_def)
  then have st: "idle (session_step cfg s ev)" using assms(2) by (rule idle_session_step)
  have upd: "w_sessions (on_session i ev w) = (w_sessions w)[i := (cfg, session_step cfg s ev)]"
    and pl: "w_play (on_session i ev w) = w_play w"
    using True cs by (simp_all add: on_session_def)
  have "map fst ((w_sessions w)[i := (cfg, session_step cfg s ev)]) = map fst (w_sessions w)"
    using True cs by (simp add: map_update list_update_same_conv)
  moreover have "\<forall>cs \<in> set ((w_sessions w)[i := (cfg, session_step cfg s ev)]). idle (snd cs)"
    using assms(1) st set_update_subset_insert [of "w_sessions w" i "(cfg, session_step cfg s ev)"]
    by (auto simp: all_idle_def)
  ultimately show ?thesis using assms(1) upd pl by (simp add: all_idle_def)
qed

lemma all_idle_step:
  assumes "all_idle cfgs w" "ev \<noteq> TogglePlay"
  shows "all_idle cfgs (step w ev)"
proof (cases ev)
  case TogglePlay
  with assms(2) show ?thesis by simp
next
  case (TypeTurn i now pos)
  have "\<not> w_play w" using assms(1) by (simp add: all_idle_def)
  then show ?thesis using TypeTurn assms(1) by (simp add: all_idle_on_session)
next
  case (OpEvent i now m)
  then show ?thesis using assms(1) by (simp add: all_idle_on_session)
next
  case (SnapshotTurn i h mi sec)
  then show ?thesis using assms(1) by (simp add: all_idle_on_session)
qed

lemma all_idle_run:
  "all_idle cfgs w \<Longrightarrow> TogglePlay \<notin> set evs \<Longrightarrow> all_idle cfgs (run evs w)"
  unfolding run_def
proof (induction evs arbitrary: w)
  case Nil
  then show ?case by simp
next
  case (Cons ev evs)
  from Cons.prems have "ev \<noteq> TogglePlay" by auto
  with Cons.prems(1) have "all_idle cfgs (step w ev)" by (rule all_idle_step)
  moreover from Cons.prems have "TogglePlay \<notin> set evs" by simp
  ultimately show ?case using Cons.IH by simp
qed

lemma all_idle_init: "all_idle cfgs (init_world cfgs)"
  by (simp add: all_idle_def init_world_def idle_def init_session_def comp_def)

text \<open>
  Claim C10. The \<open>play\<close> flag starts false. In a run of the process without any
  \<open>togglePlay\<close>, however its typing turns, acknowledgements and snapshot turns are
  interleaved, every session keeps its configuration and has made no call on the
  shared string or the document, has recorded no send and has its read cursor at 0.
\<close>

theorem no_emission_before_togglePlay:
  assumes "TogglePlay \<notin> set evs" and "i < length cfgs"
  shows "fst (w_sessions (run evs (init_world cfgs)) ! i) = cfgs ! i
       \<and> calls (snd (w_sessions (run evs (init_world cfgs)) ! i)) = []
       \<and> messageStart (snd (w_sessions (run evs (init_world cfgs)) ! i)) = []
       \<and> readPosition (snd (w_sessions (run evs (init_world cfgs)) ! i)) = 0"
proof -
  let ?w = "run evs (init_world cfgs)"
  have ai: "all_idle cfgs ?w" using all_idle_init assms(1) by (rule all_idle_run)
  then have m: "map fst (w_sessions ?w) = cfgs" by (simp add: all_idle_def)
  then have len: "length (w_sessions ?w) = length cfgs" by (metis length_map)
  with assms(2) have "w_sessions ?w ! i \<in> set (w_sessions ?w)" by simp
  with ai have "idle (snd (w_sessions ?w ! i))" by (simp add: all_idle_def)
  moreover have "fst (w_sessions ?w ! i) = cfgs ! i"
    using m len assms(2) by (metis nth_map)
  ultimately show ?thesis by (simp add: idle_def)
qed

theorem no_emission_before_togglePlay_witness:
  "TogglePlay \<notin> set [TypeTurn 0 1 0, OpEvent 0 2 (example_ack 1), SnapshotTurn 0 1 2 3, TypeTurn 0 3 0]
   \<and> (0::nat) < length [example_config ''ab'']
   \<and> calls (snd (w_sessions (run [TypeTurn 0 1 0, OpEvent 0 2 (example_ack 1),
                                     SnapshotTurn 0 1 2 3, TypeTurn 0 3 0]
                                (init_world [example_config ''ab''])) ! 0)) = []"
  using no_emission_before_togglePlay
    [of "[TypeTurn 0 1 0, OpEvent 0 2 (example_ack 1), SnapshotTurn 0 1 2 3, TypeTurn 0 3 0]"
        0 "[example_config ''ab'']"]
  by simp

section \<open>The send and acknowledgement correlator\<close>

lemma fst_resolveAck:
  "fst (resolveAck now s)
     = (if messageStart s = [] then NaN else Num (of_int (now - last (messageStart s))))"
  by (simp add: resolveAck_def pop_def)

lemma histogram_runningCalculation:
  "histogram (runningCalculation cfg now m s)
     = (if after_delay cfg now then histogram s @ [fst (resolveAck now s)] else histogram s)"
  by (simp add: runningCalculation_def snd_resolveAck recordRoundTrip_def pingUpdate_def
      updateLatency_def Let_def case_prod_beta after_delay_def)

lemma ackRateUpdate_frame:
  "messageStart (ackRateUpdate now s) = messageStart s"
  "histogram (ackRateUpdate now s) = histogram s"
  "latencyCounter (ackRateUpdate now s) = latencyCounter s"
  by (simp_all add: ackRateUpdate_def Let_def)

lemma histogram_onOp:
  "histogram (onOp cfg now m s)
     = (if attributed cfg m \<and> after_delay cfg now then histogram s @ [fst (resolveAck now s)]
        else histogram s)"
  by (simp add: onOp_def attributed_def histogram_runningCalculation completionCheck_def
      notify_def Let_def ackRateUpdate_frame fst_resolveAck)

lemma latencyCounter_runningCalculation:
  "latencyCounter (runningCalculation cfg now m s)
     = (if after_delay cfg now then rc_increment (fst (resolveAck now s)) (latencyCounter s)
        else latencyCounter s)"
  by (simp add: runningCalculation_def snd_resolveAck recordRoundTrip_def pingUpdate_def
      updateLatency_def Let_def case_prod_beta after_delay_def)

lemma latencyCounter_onOp:
  "latencyCounter (onOp cfg now m s)
     = (if attributed cfg m \<and> after_delay cfg now
        then rc_increment (fst (resolveAck now s)) (latencyCounter s)
        else latencyCounter s)"
  by (simp add: onOp_def attributed_def latencyCounter_runningCalculation completionCheck_def
      notify_def Let_def ackRateUpdate_frame fst_resolveAck)

lemma typeTick_active:
  assumes "typing s" and "readPosition s \<noteq> length (chunk cfg)"
  shows "calls (typeTick cfg True now pos s) =
           calls s @
           (let rp = (if charCodeAt (chunk cfg) (readPosition s) = Some 13
                      then readPosition s + 1 else readPosition s)
            in if charCodeAt (chunk cfg) rp = Some 10
               then InsertMarker pos #
                    (if (lineNumber s + 1) mod saveLineFrequency = 0
                     then [Save (lineNumber s + 1)] else [])
               else [InsertText (charAt (chunk cfg) rp) pos])"
    and "messageStart (typeTick cfg True now pos s) = messageStart s @ [now]"
    and "readPosition (typeTick cfg True now pos s) =
           (if charCodeAt (chunk cfg) (readPosition s) = Some 13
            then readPosition s + 2 else readPosition s + 1)"
    and "typing (typeTick cfg True now pos s)"
    and "histogram (typeTick cfg True now pos s) = histogram s"
  using assms
  by (simp_all add: typeTick_def type_def trackOperation_def insertNext_def Let_def)

text \<open>
  What one acknowledgement does to the correlator. Attributed to the session and
  handled after the running-calculation delay, while a send is pending, it removes
  exactly one pending timestamp \<open>t\<close> and reports \<open>now - t\<close> as the round trip, to the
  latency counter and to the histogram. Handled within the delay it removes none and
  reports nothing.
\<close>

lemma ack_resolves_one_send_after_delay:
  assumes "attributed cfg m"
  shows "(after_delay cfg now \<and> messageStart s \<noteq> [] \<longrightarrow>
          (\<exists>t \<in> set (messageStart s).
              mset (messageStart (onOp cfg now m s)) + {#t#} = mset (messageStart s)
              \<and> histogram (onOp cfg now m s) = histogram s @ [Num (of_int (now - t))]
              \<and> latencyCounter (onOp cfg now m s)
                  = rc_increment (Num (of_int (now - t))) (latencyCounter s)))
       \<and> (\<not> after_delay cfg now \<longrightarrow>
            messageStart (onOp cfg now m s) = messageStart s
            \<and> histogram (onOp cfg now m s) = histogram s
            \<and> latencyCounter (onOp cfg now m s) = latencyCounter s)"
proof -
  have "mset (butlast xs) + {#last xs#} = mset xs" if "xs \<noteq> []" for xs :: "int list"
    using that by (metis append_butlast_last_id mset_append mset_single_iff_right mset.simps(2)
        add_mset_add_single union_mset_add_mset_right mset_append empty_neutral(2) mset_zero_iff)
  then show ?thesis
    using assms
    by (auto simp: messageStart_onOp histogram_onOp latencyCounter_onOp fst_resolveAck
        intro!: bexI [of _ "last (messageStart s)"])
qed

text \<open>
  Claim C1 against the code. Two operations are sent, at clock values 10000 and 10001,
  and the first acknowledgement is handled at 10002, after the delay. The handler takes
  the timestamp of the second send: the round trip it reports is 1, not the 2 of the
  first send, and the earliest timestamp is the one left pending. The pairing is last
  in, first out.
\<close>

theorem ack_takes_latest_send:
  "messageStart (session_run (example_config ''ab'') [Tick True 10000 0, Tick True 10001 0]
                   (init_session (example_config ''ab''))) = [10000, 10001]
   \<and> attributed (example_config ''ab'') (example_ack 1)
   \<and> after_delay (example_config ''ab'') 10002
   \<and> messageStart (session_run (example_config ''ab'')
                     [Tick True 10000 0, Tick True 10001 0, Ack 10002 (example_ack 1)]
                     (init_session (example_config ''ab''))) = [10000]
   \<and> histogram (session_run (example_config ''ab'')
                   [Tick True 10000 0, Tick True 10001 0, Ack 10002 (example_ack 1)]
                   (init_session (example_config ''ab''))) = [Num 1]"
proof -
  let ?cfg = "example_config ''ab''"
  let ?s1 = "typeTick ?cfg True 10000 0 (init_session ?cfg)"
  let ?s2 = "typeTick ?cfg True 10001 0 ?s1"
  have a: "attributed ?cfg (example_ack 1)"
    by (simp add: attributed_def example_config_def example_ack_def)
  have d: "after_delay ?cfg 10002"
    by (simp add: after_delay_def example_config_def RunningCalculationDelay_def)
  have c: "chunk ?cfg = ''ab''" by (simp add: example_config_def)
  have i: "typing (init_session ?cfg)" "readPosition (init_session ?cfg) = 0"
    "messageStart (init_session ?cfg) = []" "histogram (init_session ?cfg) = []"
    by (simp_all add: init_session_def)
  have s1: "typing ?s1" "readPosition ?s1 = 1" "messageStart ?s1 = [10000]" "histogram ?s1 = []"
    using i c by (simp_all add: typeTick_active charCodeAt_def)
  have s2: "messageStart ?s2 = [10000, 10001]" "histogram ?s2 = []"
    using s1 c by (simp_all add: typeTick_active charCodeAt_def)
  show ?thesis
    using a d s2
    by (simp add: session_run_def messageStart_onOp histogram_onOp fst_resolveAck)
qed










section \<open>Completion\<close>

lemma completion_runningCalculation:
  "resolved (runningCalculation cfg now m s) = resolved s"
  "metricsInterval (runningCalculation cfg now m s) = metricsInterval s"
  by (simp_all add: runningCalculation_def snd_resolveAck recordRoundTrip_def pingUpdate_def
      updateLatency_def Let_def case_prod_beta)

lemma completion_ackRateUpdate:
  "resolved (ackRateUpdate now s) = resolved s"
  "metricsInterval (ackRateUpdate now s) = metricsInterval s"
  by (simp_all add: ackRateUpdate_def Let_def)

lemma completed_onOp:
  "completed (onOp cfg now m s)
     \<longleftrightarrow> completed s \<or> (attributed cfg m \<and> length (chunk cfg) \<le> clientSequenceNumber m)"
  by (auto simp: completed_def onOp_def attributed_def completionCheck_def notify_def Let_def
      completion_runningCalculation completion_ackRateUpdate split: option.splits)

lemma time_onOp:
  "attributed cfg m \<Longrightarrow> length (chunk cfg) \<le> clientSequenceNumber m \<Longrightarrow>
   time (metrics (onOp cfg now m s)) = now - startTime cfg"
  by (simp add: onOp_def attributed_def completionCheck_def notify_def Let_def)

lemma completed_typeTick: "completed (typeTick cfg p now pos s) \<longleftrightarrow> completed s"
  by (simp add: completed_def typeTick_def type_def trackOperation_def insertNext_def Let_def
      case_prod_beta)

lemma completed_metricsTick: "completed (metricsTick h mi sec s) \<longleftrightarrow> completed s"
  by (simp add: completed_def metricsTick_def Let_def)

lemma completed_run:
  "completed (session_run cfg evs s)
     \<longleftrightarrow> completed s
         \<or> (\<exists>m \<in> set (attributed_acks cfg evs). length (chunk cfg) \<le> clientSequenceNumber m)"
  unfolding session_run_def
proof (induction evs arbitrary: s)
  case Nil
  then show ?case by simp
next
  case (Cons ev evs)
  show ?case
  proof (cases ev)
    case (Tick p now pos)
    then show ?thesis using Cons.IH [of "typeTick cfg p now pos s"]
      by (simp add: completed_typeTick)
  next
    case (Ack now m)
    then show ?thesis using Cons.IH [of "onOp cfg now m s"]
      by (auto simp: completed_onOp)
  next
    case (Snapshot h mi sec)
    then show ?thesis using Cons.IH [of "session_step cfg s ev"]
      by (simp add: completed_metricsTick)
  qed
qed

lemma not_completed_init: "\<not> completed (init_session cfg)"
  by (simp add: completed_def init_session_def)

text \<open>
  Claim C2, as the handler has it. The handler has no count of acknowledgements: it
  compares the client sequence number of the message with the length of the chunk. A
  session started on a chunk of length \<open>L\<close> is in its terminal state after a run exactly
  when the run holds an acknowledgement attributed to it whose client sequence number
  is at least \<open>L\<close>, and that acknowledgement sets the elapsed time. When the
  acknowledgements attributed to the session carry the sequence numbers 1, 2, ..., \<open>k\<close>
  and \<open>L\<close> is not 0, this is exactly when the count \<open>k\<close> has reached \<open>L\<close>.
\<close>

theorem completion_by_sequence_number:
  "(completed (session_run cfg evs (init_session cfg))
      \<longleftrightarrow> (\<exists>m \<in> set (attributed_acks cfg evs). length (chunk cfg) \<le> clientSequenceNumber m))
   \<and> (map clientSequenceNumber (attributed_acks cfg evs) = [1 ..< Suc k] \<and> 0 < length (chunk cfg)
        \<longrightarrow> (completed (session_run cfg evs (init_session cfg)) \<longleftrightarrow> length (chunk cfg) \<le> k))
   \<and> (attributed cfg m \<and> length (chunk cfg) \<le> clientSequenceNumber m
        \<longrightarrow> completed (onOp cfg now m s)
            \<and> time (metrics (onOp cfg now m s)) = now - startTime cfg)"
proof -
  have A: "completed (session_run cfg evs (init_session cfg))
      \<longleftrightarrow> (\<exists>m \<in> set (attributed_acks cfg evs). length (chunk cfg) \<le> clientSequenceNumber m)"
    by (simp add: completed_run not_completed_init)
  have B: "completed (session_run cfg evs (init_session cfg)) \<longleftrightarrow> length (chunk cfg) \<le> k"
    if h: "map clientSequenceNumber (attributed_acks cfg evs) = [1 ..< Suc k]"
      and pos: "0 < length (chunk cfg)"
  proof -
    have "(\<exists>m \<in> set (attributed_acks cfg evs). length (chunk cfg) \<le> clientSequenceNumber m)
        \<longleftrightarrow> (\<exists>c \<in> set (map clientSequenceNumber (attributed_acks cfg evs)). length (chunk cfg) \<le> c)"
      by auto
    also have "\<dots> \<longleftrightarrow> (\<exists>c \<in> {1 ..< Suc k}. length (chunk cfg) \<le> c)"
      by (simp only: h set_upt)
    also have "\<dots> \<longleftrightarrow> length (chunk cfg) \<le> k"
    proof
      assume "\<exists>c \<in> {1 ..< Suc k}. length (chunk cfg) \<le> c"
      then show "length (chunk cfg) \<le> k" by auto
    next
      assume le: "length (chunk cfg) \<le> k"
      from pos le have "1 \<le> k" by linarith
      then have "k \<in> {1 ..< Suc k}" by simp
      with le show "\<exists>c \<in> {1 ..< Suc k}. length (chunk cfg) \<le> c" by blast
    qed
    finally show ?thesis using A by simp
  qed
  have C: "completed (onOp cfg now m s) \<and> time (metrics (onOp cfg now m s)) = now - startTime cfg"
    if "attributed cfg m" "length (chunk cfg) \<le> clientSequenceNumber m"
    using that by (simp add: completed_onOp time_onOp)
  show ?thesis using A B C by blast
qed

theorem completion_by_sequence_number_witness:
  "map clientSequenceNumber
      (attributed_acks (example_config ''ab'') [Ack 5 (example_ack 1), Ack 6 (example_ack 2)])
     = [1 ..< Suc 2]
   \<and> 0 < length (chunk (example_config ''ab''))
   \<and> length (chunk (example_config ''ab'')) \<le> 2
   \<and> completed (session_run (example_config ''ab'') [Ack 5 (example_ack 1), Ack 6 (example_ack 2)]
                  (init_session (example_config ''ab'')))
   \<and> map clientSequenceNumber (attributed_acks (example_config ''ab'') [Ack 5 (example_ack 1)])
     = [1 ..< Suc 1]
   \<and> \<not> length (chunk (example_config ''ab'')) \<le> 1
   \<and> \<not> completed (session_run (example_config ''ab'') [Ack 5 (example_ack 1)]
                    (init_session (example_config ''ab'')))
   \<and> attributed (example_config ''ab'') (example_ack 2)
   \<and> length (chunk (example_config ''ab'')) \<le> clientSequenceNumber (example_ack 2)
   \<and> time (metrics (onOp (example_config ''ab'') 6 (example_ack 2)
                      (init_session (example_config ''ab'')))) = 6"
proof -
  let ?cfg = "example_config ''ab''"
  have a: "attributed ?cfg (example_ack 1)" "attributed ?cfg (example_ack 2)"
    by (simp_all add: attributed_def example_config_def example_ack_def)
  have l: "length (chunk ?cfg) = 2" "startTime ?cfg = 0" by (simp_all add: example_config_def)
  have c: "clientSequenceNumber (example_ack 1) = 1" "clientSequenceNumber (example_ack 2) = 2"
    by (simp_all add: example_ack_def)
  have u: "[1 ..< Suc 2] = [1, 2]" "[1 ..< Suc 1] = [1]" by (simp_all add: upt_rec)
  show ?thesis
    using a l c u
      completion_by_sequence_number
        [of ?cfg "[Ack 5 (example_ack 1), Ack 6 (example_ack 2)]" 2 "example_ack 2" 6
            "init_session ?cfg"]
      completion_by_sequence_number
        [of ?cfg "[Ack 5 (example_ack 1)]" 1 "example_ack 2" 6 "init_session ?cfg"]
    by simp
qed

text \<open>
  Claim C2 as stated fails when the sequence numbers of the client do not start with
  the session: on the chunk \<open>abc\<close> one operation is typed, and its acknowledgement
  carries the client sequence number 3. The session is complete after one
  acknowledgement, with one of three characters typed.
\<close>

theorem completed_before_count_reaches_length:
  "length (chunk (example_config ''abc'')) = 3
   \<and> length (attributed_acks (example_config ''abc'') [Tick True 1 0, Ack 2 (example_ack 3)]) = 1
   \<and> completed (session_run (example_config ''abc'') [Tick True 1 0, Ack 2 (example_ack 3)]
                  (init_session (example_config ''abc'')))"
proof -
  let ?cfg = "example_config ''abc''"
  have a: "attributed ?cfg (example_ack 3)"
    by (simp add: attributed_def example_config_def example_ack_def)
  have l: "length (chunk ?cfg) = 3" by (simp add: example_config_def)
  have c: "clientSequenceNumber (example_ack 3) = 3" by (simp add: example_ack_def)
  show ?thesis using a l c by (simp add: completed_run)
qed

section \<open>What the metrics callback receives\<close>

lemma handout_runningCalculation:
  "delivered (runningCalculation cfg now m s) = delivered s"
  "clones (runningCalculation cfg now m s) = clones s"
  by (simp_all add: runningCalculation_def snd_resolveAck recordRoundTrip_def pingUpdate_def
      updateLatency_def Let_def case_prod_beta)

lemma handout_ackRateUpdate:
  "delivered (ackRateUpdate now s) = delivered s"
  "clones (ackRateUpdate now s) = clones s"
  by (simp_all add: ackRateUpdate_def Let_def)

lemma handout_completionCheck:
  "delivered (completionCheck cfg now m s) = delivered s"
  "clones (completionCheck cfg now m s) = clones s"
  by (simp_all add: completionCheck_def Let_def)

lemma handout_onOp:
  assumes "attributed cfg m"
  shows "delivered (onOp cfg now m s) = delivered s @ [(Callback, Suc (length (clones s)))]"
    and "clones (onOp cfg now m s) = clones s @ [metrics (onOp cfg now m s)]"
  using assms
  by (simp_all add: onOp_def attributed_def notify_def Let_def handout_runningCalculation
      handout_ackRateUpdate handout_completionCheck)

lemma handout_metricsTick:
  "delivered (metricsTick h mi sec s) = delivered s"
  "clones (metricsTick h mi sec s) = clones s"
  by (simp_all add: metricsTick_def Let_def)

lemma clones_typeTick: "clones (typeTick cfg p now pos s) = clones s"
  by (simp add: typeTick_def type_def trackOperation_def insertNext_def Let_def case_prod_beta)

lemma type_end_hands_out_metrics:
  "readPosition s = length (chunk cfg) \<Longrightarrow>
   delivered (snd (type cfg p now pos s)) = delivered s @ [(QueueCallback, 0)]"
  by (simp add: type_def)

lemma clones_step: "\<exists>ys. clones (session_step cfg s ev) = clones s @ ys"
proof (cases ev)
  case (Tick p now pos)
  then show ?thesis by (simp add: clones_typeTick)
next
  case (Ack now m)
  then show ?thesis
    by (cases "attributed cfg m") (simp_all add: handout_onOp onOp_foreign)
next
  case (Snapshot h mi sec)
  then show ?thesis by (simp add: handout_metricsTick)
qed

lemma clones_run: "\<exists>ys. clones (session_run cfg evs s) = clones s @ ys"
  unfolding session_run_def
proof (induction evs arbitrary: s)
  case Nil
  then show ?case by simp
next
  case (Cons ev evs)
  obtain ys where 1: "clones (session_step cfg s ev) = clones s @ ys"
    using clones_step by blast
  obtain zs where "clones (foldl (session_step cfg) (session_step cfg s ev) evs)
      = clones (session_step cfg s ev) @ zs"
    using Cons.IH by blast
  with 1 show ?case by simp
qed

lemma deref_clone_run:
  assumes "a \<noteq> 0" and "deref s a = Some v"
  shows "deref (session_run cfg evs s) a = Some v"
proof -
  obtain ys where ys: "clones (session_run cfg evs s) = clones s @ ys"
    using clones_run by blast
  from assms have "a - 1 < length (clones s)" "clones s ! (a - 1) = v"
    by (auto simp: deref_def split: if_splits)
  then show ?thesis using assms(1) ys by (simp add: deref_def nth_append)
qed

lemma latencyStdDev_onOp:
  "attributed cfg m \<Longrightarrow> after_delay cfg now \<Longrightarrow> latencyStdDev (metrics (onOp cfg now m s)) \<noteq> None"
  by (simp add: onOp_def attributed_def after_delay_def runningCalculation_def
      updateLatency_def completionCheck_def notify_def Let_def case_prod_beta)

lemma performanceData_metricsTick:
  "latencyStdDev (metrics s) \<noteq> None \<Longrightarrow> performanceData (metricsTick h mi sec s) \<noteq> None"
  by (simp add: metricsTick_def Let_def)

lemma metricsInterval_onOp:
  "metricsInterval s \<Longrightarrow> clientSequenceNumber m < length (chunk cfg) \<Longrightarrow>
   metricsInterval (onOp cfg now m s)"
  by (simp add: onOp_def completionCheck_def notify_def Let_def completion_runningCalculation
      completion_ackRateUpdate)

text \<open>
  Claim C3, as the handlers have it. On an acknowledgement attributed to the session
  the callback is called once, with an object that did not exist before, whose fields
  are those of the metrics when the handler ends, and which no later handler of the
  session changes. An acknowledgement not attributed to the session calls nothing. A
  turn of the snapshot timer calls nothing either and makes no copy: it writes to the
  chart buffer and the chart cells only.
\<close>

theorem callback_gets_fresh_copy_on_ack:
  "(attributed cfg m \<longrightarrow>
      delivered (onOp cfg now m s) = delivered s @ [(Callback, Suc (length (clones s)))]
      \<and> deref s (Suc (length (clones s))) = None
      \<and> deref (onOp cfg now m s) (Suc (length (clones s))) = Some (metrics (onOp cfg now m s))
      \<and> deref (session_run cfg evs (onOp cfg now m s)) (Suc (length (clones s)))
          = Some (metrics (onOp cfg now m s)))
   \<and> (\<not> attributed cfg m \<longrightarrow> delivered (onOp cfg now m s) = delivered s)
   \<and> delivered (metricsTick h mi sec s) = delivered s
   \<and> clones (metricsTick h mi sec s) = clones s"
proof -
  have A: "delivered (onOp cfg now m s) = delivered s @ [(Callback, Suc (length (clones s)))]
      \<and> deref s (Suc (length (clones s))) = None
      \<and> deref (onOp cfg now m s) (Suc (length (clones s))) = Some (metrics (onOp cfg now m s))
      \<and> deref (session_run cfg evs (onOp cfg now m s)) (Suc (length (clones s)))
          = Some (metrics (onOp cfg now m s))"
    if a: "attributed cfg m"
  proof -
    have d: "deref (onOp cfg now m s) (Suc (length (clones s))) = Some (metrics (onOp cfg now m s))"
      using a by (simp add: deref_def handout_onOp)
    have "deref (session_run cfg evs (onOp cfg now m s)) (Suc (length (clones s)))
          = Some (metrics (onOp cfg now m s))"
      using d by (intro deref_clone_run) simp_all
    then show ?thesis using a d by (simp add: handout_onOp) (simp add: deref_def)
  qed
  show ?thesis using A by (simp add: onOp_foreign handout_metricsTick)
qed

theorem callback_gets_fresh_copy_on_ack_witness:
  "attributed (example_config ''ab'') (example_ack 1)
   \<and> delivered (onOp (example_config ''ab'') 2 (example_ack 1) (init_session (example_config ''ab'')))
       = [(Callback, 1)]
   \<and> ackProgress (the (deref
        (session_run (example_config ''ab'') [Ack 3 (example_ack 2)]
           (onOp (example_config ''ab'') 2 (example_ack 1) (init_session (example_config ''ab''))))
        1)) = Some (Num (1 / 2))
   \<and> \<not> attributed (example_config ''ab'') (example_ack 0)
   \<and> delivered (onOp (example_config ''ab'') 2 (example_ack 0) (init_session (example_config ''ab'')))
       = []"
proof -
  let ?cfg = "example_config ''ab''"
  have a: "attributed ?cfg (example_ack 1)" "\<not> attributed ?cfg (example_ack 0)"
    by (simp_all add: attributed_def example_config_def example_ack_def)
  have i: "clones (init_session ?cfg) = []" "delivered (init_session ?cfg) = []"
    by (simp_all add: init_session_def)
  have p: "ackProgress (metrics (onOp ?cfg 2 (example_ack 1) (init_session ?cfg))) = Some (Num (1 / 2))"
    by (simp add: onOp_def notify_def Let_def example_config_def example_ack_def)
  show ?thesis
    using a i p
      callback_gets_fresh_copy_on_ack [of ?cfg "example_ack 1" 2 "init_session ?cfg"
        "[Ack 3 (example_ack 2)]"]
      callback_gets_fresh_copy_on_ack [of ?cfg "example_ack 0" 2 "init_session ?cfg" "[]"]
    by simp
qed

text \<open>
  Claim C3 as stated fails on the snapshot timer: after one operation sent at clock
  value 10000 and acknowledged at 10001 the latency statistics are defined and the
  timer is running; its next turn writes the chart, and the callback has been called
  once, for the acknowledgement, as before the turn.
\<close>

theorem snapshot_turn_calls_no_callback:
  "latencyStdDev (metrics (session_run (example_config ''ab'')
       [Tick True 10000 0, Ack 10001 (example_ack 1)] (init_session (example_config ''ab'')))) \<noteq> None
   \<and> metricsInterval (session_run (example_config ''ab'')
       [Tick True 10000 0, Ack 10001 (example_ack 1)] (init_session (example_config ''ab'')))
   \<and> performanceData (session_run (example_config ''ab'')
       [Tick True 10000 0, Ack 10001 (example_ack 1), Snapshot 12 0 1]
       (init_session (example_config ''ab''))) \<noteq> None
   \<and> delivered (session_run (example_config ''ab'')
       [Tick True 10000 0, Ack 10001 (example_ack 1), Snapshot 12 0 1]
       (init_session (example_config ''ab'')))
     = delivered (session_run (example_config ''ab'')
       [Tick True 10000 0, Ack 10001 (example_ack 1)] (init_session (example_config ''ab'')))
   \<and> length (delivered (session_run (example_config ''ab'')
       [Tick True 10000 0, Ack 10001 (example_ack 1), Snapshot 12 0 1]
       (init_session (example_config ''ab'')))) = 1"
proof -
  let ?cfg = "example_config ''ab''"
  let ?s1 = "typeTick ?cfg True 10000 0 (init_session ?cfg)"
  let ?s2 = "onOp ?cfg 10001 (example_ack 1) ?s1"
  have a: "attributed ?cfg (example_ack 1)"
    by (simp add: attributed_def example_config_def example_ack_def)
  have d: "after_delay ?cfg 10001"
    by (simp add: after_delay_def example_config_def RunningCalculationDelay_def)
  have l: "clientSequenceNumber (example_ack 1) < length (chunk ?cfg)"
    by (simp add: example_config_def example_ack_def)
  have t: "metricsInterval ?s1" "delivered ?s1 = []"
    by (simp_all add: typeTick_def type_def trackOperation_def insertNext_def Let_def
        case_prod_beta init_session_def example_config_def)
  have sd: "latencyStdDev (metrics ?s2) \<noteq> None"
    using a d by (rule latencyStdDev_onOp)
  have mi: "metricsInterval ?s2"
    using t(1) l by (rule metricsInterval_onOp)
  have pd: "performanceData (metricsTick 12 0 1 ?s2) \<noteq> None"
    using sd by (rule performanceData_metricsTick)
  have dl: "delivered ?s2 = [(Callback, Suc (length (clones ?s1)))]"
    using a t(2) by (simp add: handout_onOp)
  show ?thesis
    using sd mi pd dl by (simp add: session_run_def handout_metricsTick)
qed

section \<open>The running latency estimate\<close>

lemma sum_squares_about:
  "(\<Sum>x\<leftarrow>xs. (x - m)\<^sup>2) = (\<Sum>x\<leftarrow>xs. x\<^sup>2) - 2 * m * sum_list xs + real (length xs) * m\<^sup>2"
  for m :: real
  by (induction xs) (simp_all add: power2_eq_square algebra_simps)

lemma sum_squares_about_mean:
  assumes "xs \<noteq> []"
  shows "(\<Sum>x\<leftarrow>xs. (x - batch_mean xs)\<^sup>2)
           = (\<Sum>x\<leftarrow>xs. x\<^sup>2) - (sum_list xs)\<^sup>2 / real (length xs)"
proof -
  from assms have n: "real (length xs) \<noteq> 0" by simp
  show ?thesis
    unfolding sum_squares_about batch_mean_def using n
    by (simp add: power2_eq_square field_simps)
qed

lemma welford_algebra:
  fixes n S x Q :: real
  assumes n: "0 < n"
  shows "Q + x\<^sup>2 - (S + x)\<^sup>2 / (n + 1)
           = Q - S\<^sup>2 / n + (x - (S + x) / (n + 1)) * (x - S / n)"
proof -
  have n0: "n \<noteq> 0" "n + 1 \<noteq> 0" using n by auto
  have e1: "x - (S + x) / (n + 1) = (n * x - S) / (n + 1)" using n0 by (simp add: field_simps)
  have e2: "x - S / n = (n * x - S) / n" using n0 by (simp add: field_simps)
  have e3: "(n * x - S) / (n + 1) * ((n * x - S) / n) = (n * x - S)\<^sup>2 / (n * (n + 1))"
    by (simp add: power2_eq_square)
  have "x\<^sup>2 - (S + x)\<^sup>2 / (n + 1) + S\<^sup>2 / n = (n * x - S)\<^sup>2 / (n * (n + 1))"
    using n0 by (simp add: divide_simps) (simp add: power2_eq_square algebra_simps)
  then show ?thesis unfolding e1 e2 e3 by linarith
qed

lemma welford_step:
  assumes "xs \<noteq> []"
  shows "(\<Sum>y\<leftarrow>xs @ [x]. (y - batch_mean (xs @ [x]))\<^sup>2)
           = (\<Sum>y\<leftarrow>xs. (y - batch_mean xs)\<^sup>2)
             + (x - batch_mean (xs @ [x])) * (x - batch_mean xs)"
proof -
  define n where "n = real (length xs)"
  define S where "S = sum_list xs"
  define Q where "Q = (\<Sum>y\<leftarrow>xs. y\<^sup>2)"
  from assms have n: "0 < n" by (simp add: n_def)
  have 1: "(\<Sum>y\<leftarrow>xs. (y - batch_mean xs)\<^sup>2) = Q - S\<^sup>2 / n"
    using sum_squares_about_mean [OF assms] by (simp add: n_def S_def Q_def)
  have 2: "(\<Sum>y\<leftarrow>xs @ [x]. (y - batch_mean (xs @ [x]))\<^sup>2) = Q + x\<^sup>2 - (S + x)\<^sup>2 / (n + 1)"
    using sum_squares_about_mean [of "xs @ [x]"] by (simp add: n_def S_def Q_def add.commute)
  have 3: "batch_mean xs = S / n" "batch_mean (xs @ [x]) = (S + x) / (n + 1)"
    by (simp_all add: batch_mean_def n_def S_def add.commute)
  have "(\<Sum>y\<leftarrow>xs @ [x]. (y - batch_mean (xs @ [x]))\<^sup>2) = Q + x\<^sup>2 - (S + x)\<^sup>2 / (n + 1)"
    by (rule 2)
  also have "\<dots> = Q - S\<^sup>2 / n + (x - (S + x) / (n + 1)) * (x - S / n)"
    using n by (rule welford_algebra)
  also have "\<dots> = (\<Sum>y\<leftarrow>xs. (y - batch_mean xs)\<^sup>2)
             + (x - batch_mean (xs @ [x])) * (x - batch_mean xs)"
    by (simp only: 1 [unfolded 3] 3)
  finally show ?thesis .
qed

lemma sum_squares_nonneg: "0 \<le> (\<Sum>x\<leftarrow>xs. (x - m)\<^sup>2)" for m :: real
  by (rule sum_list_nonneg) auto


lemma feed_estimate:
  assumes "rc_value (latencyCounter s) = Num v" and "rc_samples (latencyCounter s) = n"
    and "mean s = Num mu" and "stdDev s = Num q"
  shows "rc_value (latencyCounter (feed s x)) = Num (v + x)"
    and "rc_samples (latencyCounter (feed s x)) = Suc n"
    and "mean (feed s x) = Num ((v + x) / real (Suc n))"
    and "stdDev (feed s x) = Num (q + (x - (v + x) / real (Suc n)) * (x - mu))"
    and "latencyAverage (metrics (feed s x)) = Some (Num ((v + x) / real (Suc n)))"
    and "latencyStdDev (metrics (feed s x))
           = Some (if 0 < n
                   then jsqrt (Num ((q + (x - (v + x) / real (Suc n)) * (x - mu)) / real n))
                   else Num 0)"
  using assms
  by (simp_all add: feed_def updateLatency_def recordRoundTrip_def rc_increment_def Let_def
      jsub_def)

lemma estimate_invariant:
  "rc_value (latencyCounter (foldl feed (init_session cfg) xs)) = Num (sum_list xs)
   \<and> rc_samples (latencyCounter (foldl feed (init_session cfg) xs)) = length xs
   \<and> mean (foldl feed (init_session cfg) xs) = Num (if xs = [] then 0 else batch_mean xs)
   \<and> stdDev (foldl feed (init_session cfg) xs) = Num (\<Sum>y\<leftarrow>xs. (y - batch_mean xs)\<^sup>2)"
proof (induction xs rule: rev_induct)
  case Nil
  show ?case by (simp add: init_session_def rc_reset_def)
next
  case (snoc x xs)
  let ?s = "foldl feed (init_session cfg) xs"
  from snoc.IH have a: "rc_value (latencyCounter ?s) = Num (sum_list xs)"
    and b: "rc_samples (latencyCounter ?s) = length xs"
    and c: "mean ?s = Num (if xs = [] then 0 else batch_mean xs)"
    and d: "stdDev ?s = Num (\<Sum>y\<leftarrow>xs. (y - batch_mean xs)\<^sup>2)"
    by blast+
  note f = feed_estimate [OF a b c d, of x]
  have st: "foldl feed (init_session cfg) (xs @ [x]) = feed ?s x" by simp
  have m: "(sum_list xs + x) / real (Suc (length xs)) = batch_mean (xs @ [x])"
    by (simp add: batch_mean_def add.commute)
  have q: "(\<Sum>y\<leftarrow>xs. (y - batch_mean xs)\<^sup>2)
        + (x - batch_mean (xs @ [x])) * (x - (if xs = [] then 0 else batch_mean xs))
      = (\<Sum>y\<leftarrow>xs @ [x]. (y - batch_mean (xs @ [x]))\<^sup>2)"
  proof (cases "xs = []")
    case True
    then show ?thesis by (simp add: batch_mean_def)
  next
    case False
    then show ?thesis using welford_step [OF False, of x] by simp
  qed
  have 1: "rc_value (latencyCounter (feed ?s x)) = Num (sum_list (xs @ [x]))"
    using f(1) by simp
  have 2: "rc_samples (latencyCounter (feed ?s x)) = length (xs @ [x])"
    using f(2) by simp
  have 3: "mean (feed ?s x) = Num (if xs @ [x] = [] then 0 else batch_mean (xs @ [x]))"
    using f(3) [unfolded m] by simp
  have 4: "stdDev (feed ?s x) = Num (\<Sum>y\<leftarrow>xs @ [x]. (y - batch_mean (xs @ [x]))\<^sup>2)"
    using f(4) [unfolded m] by (simp only: q)
  show ?case unfolding st using 1 2 3 4 by blast
qed

text \<open>
  The handler feeds the estimate: on an attributed acknowledgement after the delay,
  with a send pending, what it keeps and reports is what \<open>feed\<close> gives for the round
  trip to one of the pending timestamps.
\<close>

lemma estimate_updateLatency_cong:
  assumes "latencyCounter s = latencyCounter s'" and "mean s = mean s'" and "stdDev s = stdDev s'"
  shows "estimate (updateLatency rt s) = estimate (updateLatency rt s')"
  using assms by (simp add: estimate_def updateLatency_def Let_def)

lemma estimate_runningCalculation:
  assumes "after_delay cfg now"
  shows "estimate (runningCalculation cfg now m s)
           = estimate (updateLatency (fst (resolveAck now s))
                         (recordRoundTrip (fst (resolveAck now s)) s))"
proof -
  let ?rt = "fst (resolveAck now s)"
  have "runningCalculation cfg now m s
      = updateLatency ?rt (pingUpdate m (recordRoundTrip ?rt (snd (resolveAck now s))))"
    using assms by (simp add: runningCalculation_def after_delay_def case_prod_beta Let_def)
  moreover have "estimate (updateLatency ?rt (pingUpdate m (recordRoundTrip ?rt (snd (resolveAck now s)))))
      = estimate (updateLatency ?rt (recordRoundTrip ?rt s))"
    by (rule estimate_updateLatency_cong)
      (simp_all add: pingUpdate_def recordRoundTrip_def snd_resolveAck Let_def)
  ultimately show ?thesis by simp
qed

lemma estimate_onOp:
  assumes "attributed cfg m"
  shows "estimate (onOp cfg now m s) = estimate (runningCalculation cfg now m (ackRateUpdate now s))"
  using assms
  by (simp add: onOp_def attributed_def estimate_def completionCheck_def notify_def Let_def)

lemma estimate_frame_ackRateUpdate:
  "latencyCounter (ackRateUpdate now s) = latencyCounter s"
  "mean (ackRateUpdate now s) = mean s"
  "stdDev (ackRateUpdate now s) = stdDev s"
  "messageStart (ackRateUpdate now s) = messageStart s"
  by (simp_all add: ackRateUpdate_def Let_def)

lemma onOp_feeds_estimate:
  assumes "attributed cfg m" and "after_delay cfg now" and "messageStart s \<noteq> []"
  shows "\<exists>t \<in> set (messageStart s).
           estimate (onOp cfg now m s) = estimate (feed s (of_int (now - t)))"
proof -
  let ?s = "ackRateUpdate now s"
  let ?x = "real_of_int (now - last (messageStart s))"
  have rt: "fst (resolveAck now ?s) = Num ?x"
    using assms(3) by (simp add: fst_resolveAck estimate_frame_ackRateUpdate)
  have "estimate (onOp cfg now m s)
      = estimate (updateLatency (Num ?x) (recordRoundTrip (Num ?x) ?s))"
    using assms(1,2) by (simp add: estimate_onOp estimate_runningCalculation rt)
  also have "\<dots> = estimate (updateLatency (Num ?x) (recordRoundTrip (Num ?x) s))"
    by (rule estimate_updateLatency_cong)
      (simp_all add: recordRoundTrip_def estimate_frame_ackRateUpdate)
  finally have "estimate (onOp cfg now m s) = estimate (feed s ?x)"
    by (simp add: feed_def)
  moreover have "last (messageStart s) \<in> set (messageStart s)"
    using assms(3) by simp
  ultimately show ?thesis by blast
qed

text \<open>
  Claim C5. Fed any samples, one after the other from the start of a session, the
  running estimate reports the batch mean of the samples as the latency average; as
  the standard deviation it reports the batch sample standard deviation (the \<open>n - 1\<close>
  form) when there are at least two samples, and 0 after exactly one.
\<close>

theorem running_estimate_is_batch:
  assumes "xs \<noteq> []"
  shows "latencyAverage (metrics (foldl feed (init_session cfg) xs)) = Some (Num (batch_mean xs))
       \<and> (1 < length xs \<longrightarrow>
            latencyStdDev (metrics (foldl feed (init_session cfg) xs)) = Some (Num (batch_stdDev xs)))
       \<and> (length xs = 1 \<longrightarrow>
            latencyStdDev (metrics (foldl feed (init_session cfg) xs)) = Some (Num 0))"
proof -
  from assms obtain ys x where xs: "xs = ys @ [x]" by (metis rev_exhaust)
  let ?s = "foldl feed (init_session cfg) ys"
  from estimate_invariant [of cfg ys]
  have a: "rc_value (latencyCounter ?s) = Num (sum_list ys)"
    and b: "rc_samples (latencyCounter ?s) = length ys"
    and c: "mean ?s = Num (if ys = [] then 0 else batch_mean ys)"
    and d: "stdDev ?s = Num (\<Sum>y\<leftarrow>ys. (y - batch_mean ys)\<^sup>2)"
    by blast+
  note f = feed_estimate [OF a b c d, of x]
  have st: "foldl feed (init_session cfg) xs = feed ?s x" by (simp add: xs)
  have m: "(sum_list ys + x) / real (Suc (length ys)) = batch_mean xs"
    by (simp add: batch_mean_def xs add.commute)
  have avg: "latencyAverage (metrics (foldl feed (init_session cfg) xs)) = Some (Num (batch_mean xs))"
    unfolding st using f(5) [unfolded m] .
  from estimate_invariant [of cfg xs]
  have "stdDev (feed ?s x) = Num (\<Sum>y\<leftarrow>xs. (y - batch_mean xs)\<^sup>2)"
    unfolding st by blast
  with f(4) [unfolded m]
  have q: "(\<Sum>y\<leftarrow>ys. (y - batch_mean ys)\<^sup>2)
        + (x - batch_mean xs) * (x - (if ys = [] then 0 else batch_mean ys))
      = (\<Sum>y\<leftarrow>xs. (y - batch_mean xs)\<^sup>2)"
    by simp
  have sd: "latencyStdDev (metrics (foldl feed (init_session cfg) xs))
      = Some (if 0 < length ys
              then jsqrt (Num ((\<Sum>y\<leftarrow>xs. (y - batch_mean xs)\<^sup>2) / real (length ys)))
              else Num 0)"
    unfolding st using f(6) [unfolded m q] .
  have nn: "0 \<le> (\<Sum>y\<leftarrow>xs. (y - batch_mean xs)\<^sup>2) / real (length ys)"
    using sum_squares_nonneg [where xs = xs and m = "batch_mean xs"] by simp
  have two: "latencyStdDev (metrics (foldl feed (init_session cfg) xs)) = Some (Num (batch_stdDev xs))"
    if "1 < length xs"
  proof -
    from that have "0 < length ys" by (simp add: xs)
    moreover have "length xs - 1 = length ys" by (simp add: xs)
    ultimately show ?thesis using sd nn by (simp add: batch_stdDev_def)
  qed
  have one: "latencyStdDev (metrics (foldl feed (init_session cfg) xs)) = Some (Num 0)"
    if "length xs = 1"
  proof -
    from that have "length ys = 0" by (simp add: xs)
    then show ?thesis using sd by simp
  qed
  show ?thesis using avg one two by blast
qed

theorem running_estimate_is_batch_witness:
  "[2, 4, 9 :: real] \<noteq> []
   \<and> latencyAverage (metrics (foldl feed (init_session (example_config ''ab'')) [2, 4, 9]))
       = Some (Num 5)
   \<and> 1 < length [2, 4, 9 :: real]
   \<and> latencyStdDev (metrics (foldl feed (init_session (example_config ''ab'')) [2, 4, 9]))
       = Some (Num (sqrt 13))
   \<and> length [7 :: real] = 1
   \<and> latencyStdDev (metrics (foldl feed (init_session (example_config ''ab'')) [7]))
       = Some (Num 0)"
proof -
  have b: "batch_mean [2, 4, 9] = 5" "batch_stdDev [2, 4, 9] = sqrt 13"
    by (simp_all add: batch_mean_def batch_stdDev_def)
  show ?thesis
    using b running_estimate_is_batch [of "[2, 4, 9]" "example_config ''ab''"]
      running_estimate_is_batch [of "[7]" "example_config ''ab''"]
    by simp
qed

section \<open>The progress metrics\<close>

lemma typingProgress_typeTick:
  assumes "typing s" and "readPosition s \<noteq> length (chunk cfg)"
  shows "typingProgress (metrics (typeTick cfg True now pos s))
           = Some (jdiv (Num (real (readPosition (typeTick cfg True now pos s))))
                        (Num (real (length (chunk cfg)))))"
  using assms
  by (simp add: typeTick_def type_def trackOperation_def insertNext_def Let_def)

lemma ackProgress_onOp:
  assumes "attributed cfg m"
  shows "ackProgress (metrics (onOp cfg now m s))
           = Some (jdiv (Num (real (clientSequenceNumber m))) (Num (real (length (chunk cfg)))))"
  using assms by (simp add: onOp_def attributed_def notify_def Let_def)

text \<open>
  Claim C6 against the code. The metrics are documented as lying in \<open>[0,1]\<close>, and the
  code lets both leave it. On the chunk of \<open>a\<close> followed by a carriage return, the
  second call of \<open>type\<close> skips the carriage return, which is the last character, types
  the empty string and moves the read cursor to 3, beyond the length 2: the typing
  progress is \<open>3/2\<close>, and the cursor never equals the length again. An acknowledgement
  whose client sequence number 3 exceeds the length 2 of the chunk \<open>ab\<close> sets the
  acknowledgement progress to \<open>3/2\<close>.
\<close>

theorem progress_leaves_unit_interval:
  "readPosition (session_run (example_config [CHR ''a'', CHR 0x0D])
       [Tick True 1 0, Tick True 2 0] (init_session (example_config [CHR ''a'', CHR 0x0D]))) = 3
   \<and> calls (session_run (example_config [CHR ''a'', CHR 0x0D])
       [Tick True 1 0, Tick True 2 0] (init_session (example_config [CHR ''a'', CHR 0x0D])))
       = [InsertText ''a'' 0, InsertText [] 0]
   \<and> typingProgress (metrics (session_run (example_config [CHR ''a'', CHR 0x0D])
       [Tick True 1 0, Tick True 2 0] (init_session (example_config [CHR ''a'', CHR 0x0D]))))
       = Some (Num (3 / 2))
   \<and> ackProgress (metrics (onOp (example_config ''ab'') 5 (example_ack 3)
       (init_session (example_config ''ab'')))) = Some (Num (3 / 2))
   \<and> \<not> in_unit_interval (Num (3 / 2))"
proof -
  let ?cfg = "example_config [CHR ''a'', CHR 0x0D]"
  let ?s1 = "typeTick ?cfg True 1 0 (init_session ?cfg)"
  let ?s2 = "typeTick ?cfg True 2 0 ?s1"
  have c: "chunk ?cfg = [CHR ''a'', CHR 0x0D]" by (simp add: example_config_def)
  have i: "typing (init_session ?cfg)" "readPosition (init_session ?cfg) = 0"
    "calls (init_session ?cfg) = []"
    by (simp_all add: init_session_def)
  have s1: "typing ?s1" "readPosition ?s1 = 1" "calls ?s1 = [InsertText ''a'' 0]"
    using i c by (simp_all add: typeTick_active charCodeAt_def charAt_def)
  have s2: "readPosition ?s2 = 3" "calls ?s2 = [InsertText ''a'' 0, InsertText [] 0]"
    using s1 c by (simp_all add: typeTick_active charCodeAt_def charAt_def)
  have tp: "typingProgress (metrics ?s2) = Some (Num (3 / 2))"
    using s1 s2 c by (simp add: typingProgress_typeTick)
  have a: "attributed (example_config ''ab'') (example_ack 3)"
    by (simp add: attributed_def example_config_def example_ack_def)
  have ap: "ackProgress (metrics (onOp (example_config ''ab'') 5 (example_ack 3)
       (init_session (example_config ''ab'')))) = Some (Num (3 / 2))"
    using a by (simp add: ackProgress_onOp) (simp add: example_config_def example_ack_def)
  show ?thesis using s2 tp ap by (simp add: session_run_def)
qed

end
